theory Spec2Isabelle
  imports Main
begin

section \<open>JavaScript values\<close>

text \<open>
  The provider dashboard (\<^verbatim>\<open>src/App.tsx\<close>) is untyped JavaScript working on what
  \<^verbatim>\<open>JSON.parse\<close> and \<^verbatim>\<open>Response.json()\<close> hand it, so the model works on
  JavaScript values. An object is the list of its own enumerable properties in the order
  \<^verbatim>\<open>Object.keys\<close> lists them. A number is an integer: the program only tests numbers
  for zero and prints them into URLs, and the identifiers it handles are integers (the
  decimal text of \<open>to_string\<close> is JavaScript's for magnitudes below \<open>10^21\<close>). A string
  is a list of 8-bit characters, each standing for one code unit.
\<close>

datatype jsval =
    JUndefined
  | JNull
  | JBool bool
  | JNum int
  | JStr string
  | JArr "jsval list"
  | JObj "(string \<times> jsval) list"

text \<open>The values a \<^verbatim>\<open>throw\<close> or a rejected promise carries.\<close>

datatype js_error = Error string | TypeError | SyntaxError

text \<open>\<^verbatim>\<open>if (v)\<close>, \<^verbatim>\<open>!v\<close>, \<^verbatim>\<open>v || w\<close>: the falsy values are undefined, null,
  false, 0 and the empty string.\<close>

fun truthy :: "jsval \<Rightarrow> bool" where
  "truthy JUndefined = False"
| "truthy JNull = False"
| "truthy (JBool b) = b"
| "truthy (JNum n) = (n \<noteq> 0)"
| "truthy (JStr s) = (s \<noteq> [])"
| "truthy (JArr xs) = True"
| "truthy (JObj ps) = True"

fun nullish :: "jsval \<Rightarrow> bool" where
  "nullish JUndefined = True"
| "nullish JNull = True"
| "nullish v = False"

text \<open>\<^verbatim>\<open>a || b\<close> on values.\<close>

definition js_or :: "jsval \<Rightarrow> jsval \<Rightarrow> jsval" where
  "js_or a b = (if truthy a then a else b)"

text \<open>The decimal text of a natural number: the property key of an array index.\<close>

fun show_nat :: "nat \<Rightarrow> string" where
  "show_nat n =
     (if n < 10 then [''0123456789'' ! n]
      else show_nat (n div 10) @ [''0123456789'' ! (n mod 10)])"

declare show_nat.simps [simp del]

definition show_int :: "int \<Rightarrow> string" where
  "show_int i = (if i < 0 then CHR ''-'' # show_nat (nat (- i)) else show_nat (nat i))"

definition index_keys :: "nat \<Rightarrow> string list" where
  "index_keys n = map show_nat [0..<n]"

text \<open>
  The own enumerable properties of a value, in \<^verbatim>\<open>Object.keys\<close> order: what
  \<^verbatim>\<open>{...v}\<close> copies. An array has its elements under the index keys, a string its
  characters; a number or a boolean has none (and so have null and undefined under a spread).
\<close>

fun own_props :: "jsval \<Rightarrow> (string \<times> jsval) list" where
  "own_props (JObj ps) = ps"
| "own_props (JArr xs) = zip (index_keys (length xs)) xs"
| "own_props (JStr s) = zip (index_keys (length s)) (map (\<lambda>c. JStr [c]) s)"
| "own_props v = []"

text \<open>\<^verbatim>\<open>Object.keys(v)\<close> for a value that is neither null nor undefined.\<close>

definition own_keys :: "jsval \<Rightarrow> string list" where
  "own_keys v = map fst (own_props v)"

text \<open>
  \<^verbatim>\<open>v[k]\<close> and \<^verbatim>\<open>v.k\<close> for a value that is neither null nor undefined: an own
  property, the \<^verbatim>\<open>length\<close> of an array or a string, and undefined otherwise. Inherited
  properties are left out: no name the program reads (\<^verbatim>\<open>meta\<close>, \<^verbatim>\<open>order_trips\<close>,
  \<^verbatim>\<open>title\<close>, \<^verbatim>\<open>rendered\<close>, \<^verbatim>\<open>token\<close>, ...) is one, and a key taken from
  \<^verbatim>\<open>Object.keys\<close> is an own one.
\<close>

definition get_prop :: "jsval \<Rightarrow> string \<Rightarrow> jsval" where
  "get_prop v k =
     (case map_of (own_props v) k of
        Some x \<Rightarrow> x
      | None \<Rightarrow>
          (case v of
             JArr xs \<Rightarrow> if k = ''length'' then JNum (int (length xs)) else JUndefined
           | JStr s \<Rightarrow> if k = ''length'' then JNum (int (length s)) else JUndefined
           | _ \<Rightarrow> JUndefined))"

text \<open>\<^verbatim>\<open>v.k\<close>: reading a property of null or undefined throws a TypeError.\<close>

definition member :: "jsval \<Rightarrow> string \<Rightarrow> js_error + jsval" where
  "member v k = (if nullish v then Inl TypeError else Inr (get_prop v k))"

text \<open>\<^verbatim>\<open>v?.k\<close> and \<^verbatim>\<open>v?.[k]\<close>: undefined on null or undefined.\<close>

definition opt_member :: "jsval \<Rightarrow> string \<Rightarrow> jsval" where
  "opt_member v k = (if nullish v then JUndefined else get_prop v k)"

text \<open>Writing a property of an object literal under construction: an existing key keeps
  its place, a new key goes last.\<close>

fun set_prop :: "string \<Rightarrow> jsval \<Rightarrow> (string \<times> jsval) list \<Rightarrow> (string \<times> jsval) list" where
  "set_prop k v [] = [(k, v)]"
| "set_prop k v (p # ps) = (if fst p = k then (k, v) # ps else p # set_prop k v ps)"

text \<open>
  \<^verbatim>\<open>`${v}`\<close>: the text of a value in a template literal. An array joins the texts of
  its elements with commas, null and undefined elements giving the empty text. An object
  from JSON gives \<^verbatim>\<open>[object Object]\<close>, unless it has an own \<^verbatim>\<open>toString\<close> property:
  that property is no function, \<^verbatim>\<open>valueOf\<close> returns the object itself, and the conversion
  throws a TypeError.
\<close>

fun join_texts :: "(js_error + string) list \<Rightarrow> js_error + string" where
  "join_texts [] = Inr []"
| "join_texts [r] = r"
| "join_texts (r # rs) =
     (case r of
        Inl e \<Rightarrow> Inl e
      | Inr s \<Rightarrow> (case join_texts rs of Inl e \<Rightarrow> Inl e | Inr t \<Rightarrow> Inr (s @ '','' @ t)))"

fun to_string :: "jsval \<Rightarrow> js_error + string" where
  "to_string JUndefined = Inr ''undefined''"
| "to_string JNull = Inr ''null''"
| "to_string (JBool b) = Inr (if b then ''true'' else ''false'')"
| "to_string (JNum n) = Inr (show_int n)"
| "to_string (JStr s) = Inr s"
| "to_string (JArr xs) =
     join_texts (map (\<lambda>x. if nullish x then Inr [] else to_string x) xs)"
| "to_string (JObj ps) =
     (if ''toString'' \<in> set (map fst ps) then Inl TypeError else Inr ''[object Object]'')"

text \<open>
  \<^verbatim>\<open>JSON.parse(JSON.stringify(v))\<close> for a value other than undefined: a property whose
  value is undefined is dropped, an undefined array element becomes null.
\<close>

fun json_value :: "jsval \<Rightarrow> jsval" where
  "json_value (JArr xs) = JArr (map (\<lambda>x. if x = JUndefined then JNull else json_value x) xs)"
| "json_value (JObj ps) =
     JObj (map (\<lambda>p. (fst p, json_value (snd p))) (filter (\<lambda>p. snd p \<noteq> JUndefined) ps))"
| "json_value v = v"

text \<open>The values JSON text denotes: undefined occurs nowhere in them.\<close>

fun is_json :: "jsval \<Rightarrow> bool" where
  "is_json JUndefined = False"
| "is_json (JArr xs) = list_all is_json xs"
| "is_json (JObj ps) = list_all (\<lambda>p. is_json (snd p)) ps"
| "is_json v = True"

section \<open>The environment: network, storage, encoding\<close>

text \<open>
  A request is the URL and the \<^verbatim>\<open>Authorization\<close> header handed to \<^verbatim>\<open>fetch\<close>. The
  promise \<^verbatim>\<open>fetch\<close> returns is either rejected (transport failure) or resolved with a
  response, of which the program reads \<^verbatim>\<open>ok\<close> and \<^verbatim>\<open>json()\<close>; the latter is again
  rejected (the body is no JSON) or resolved with the value.
\<close>

record request =
  url :: string
  authorization :: string

datatype response =
    Rejected js_error
  | Resolved bool "js_error + jsval"

text \<open>
  The remote side is a parameter: the answer to the \<open>n\<close>-th request issued since the
  page was loaded. No answer depends on when another one arrives, so one function covers
  every order of completion. The requests issued so far are kept as a log.
\<close>

type_synonym network = "nat \<Rightarrow> request \<Rightarrow> response"

definition fetch :: "network \<Rightarrow> request \<Rightarrow> request list \<Rightarrow> response \<times> request list" where
  "fetch net req log = (net (length log) req, log @ [req])"

text \<open>
  The text stored under a \<^verbatim>\<open>localStorage\<close> key, by what \<^verbatim>\<open>JSON.parse\<close> makes of it:
  the empty text and any other text that is no JSON (such as \<^verbatim>\<open>{oops\<close>) make it throw
  a SyntaxError, a JSON text gives the value it denotes.
\<close>

datatype stored_text = EmptyText | NotJson | JsonText jsval

fun JSON_parse :: "stored_text \<Rightarrow> js_error + jsval" where
  "JSON_parse EmptyText = Inl SyntaxError"
| "JSON_parse NotJson = Inl SyntaxError"
| "JSON_parse (JsonText v) = Inr v"

text \<open>\<^verbatim>\<open>JSON.parse(localStorage.getItem(key))\<close>: a missing entry is read as null, whose
  text \<^verbatim>\<open>null\<close> parses to null.\<close>

fun JSON_parse_item :: "stored_text option \<Rightarrow> js_error + jsval" where
  "JSON_parse_item None = Inr JNull"
| "JSON_parse_item (Some t) = JSON_parse t"

text \<open>\<^verbatim>\<open>JSON.stringify(v)\<close> of an object: the text denoting \<open>json_value v\<close>.\<close>

definition JSON_stringify :: "jsval \<Rightarrow> stored_text" where
  "JSON_stringify v = JsonText (json_value v)"

text \<open>
  \<^verbatim>\<open>btoa\<close>: Base64 of a string of 8-bit characters. (On a character above 255 the
  browser's \<^verbatim>\<open>btoa\<close> throws; the strings of the model have none.)
\<close>

definition b64_digit :: "nat \<Rightarrow> char" where
  "b64_digit n =
     ''ABCDEFGHIJKLMNOPQRSTUVWXYZabcdefghijklmnopqrstuvwxyz0123456789+/'' ! (n mod 64)"

fun b64_encode :: "nat list \<Rightarrow> string" where
  "b64_encode (a # b # c # rest) =
     (let n = a * 65536 + b * 256 + c
      in [b64_digit (n div 262144), b64_digit (n div 4096), b64_digit (n div 64), b64_digit n]
         @ b64_encode rest)"
| "b64_encode [a, b] =
     (let n = a * 65536 + b * 256
      in [b64_digit (n div 262144), b64_digit (n div 4096), b64_digit (n div 64), CHR ''=''])"
| "b64_encode [a] =
     (let n = a * 65536
      in [b64_digit (n div 262144), b64_digit (n div 4096), CHR ''='', CHR ''=''])"
| "b64_encode [] = []"

definition btoa :: "string \<Rightarrow> string" where
  "btoa s = b64_encode (map of_char s)"

section \<open>The application state\<close>

text \<open>
  The React state of \<^verbatim>\<open>App\<close> (lines 13-26), the \<^verbatim>\<open>providerAuth\<close> entry of
  \<^verbatim>\<open>localStorage\<close>, the log of the requests issued and the texts shown by
  \<^verbatim>\<open>alert\<close>. \<^verbatim>\<open>siteUrl\<close>, \<^verbatim>\<open>currentUsername\<close> and \<^verbatim>\<open>userId\<close> receive
  values read from JSON, so they hold JavaScript values; \<^verbatim>\<open>username\<close> and
  \<^verbatim>\<open>appPassword\<close> only ever hold the text of a form field. What \<^verbatim>\<open>console.error\<close>
  prints is not part of the state.
\<close>

datatype message = Text string | EngineText js_error

text \<open>\<^verbatim>\<open>error.message\<close>: the text given to \<^verbatim>\<open>new Error\<close>, and the JavaScript
  engine's own wording for the errors it raises.\<close>

fun message_of :: "js_error \<Rightarrow> message" where
  "message_of (Error s) = Text s"
| "message_of e = EngineText e"

record app =
  isLoggedIn :: bool
  isLoading :: bool
  loginError :: message
  siteUrl :: jsval
  username :: string
  appPassword :: string
  bookings :: jsval
  enquiries :: jsval
  currentUsername :: jsval
  userId :: jsval
  providerAuth :: "stored_text option"
  requests :: "request list"
  alerts :: "string list"

text \<open>The state of a freshly mounted \<^verbatim>\<open>App\<close>, over what the browser has stored.\<close>

definition initial_app :: "stored_text option \<Rightarrow> app" where
  "initial_app stored =
     \<lparr>isLoggedIn = False, isLoading = True, loginError = Text [],
      siteUrl = JStr ''https://world.hyrosy.com'', username = [], appPassword = [],
      bookings = JArr [], enquiries = JArr [], currentUsername = JStr [], userId = JNull,
      providerAuth = stored, requests = [], alerts = []\<rparr>"

subsection \<open>Rehydration (lines 29-39)\<close>


subsection \<open>Logout (lines 94-103)\<close>

definition handleLogout :: "app \<Rightarrow> app" where
  "handleLogout st =
     st\<lparr>providerAuth := None, isLoggedIn := False, username := [], appPassword := [],
        currentUsername := JStr [], userId := JNull, bookings := JArr [], enquiries := JArr []\<rparr>"

subsection \<open>Login (lines 49-92)\<close>

text \<open>
  The \<^verbatim>\<open>try\<close> block (lines 63-85): the error it throws, if any, and the state it
  leaves. \<^verbatim>\<open>localStorage.setItem\<close> is taken to accept the write.
\<close>

definition handleLogin_try :: "network \<Rightarrow> string \<Rightarrow> app \<Rightarrow> js_error option \<times> app" where
  "handleLogin_try net token st =
     (case to_string (siteUrl st) of
        Inl e \<Rightarrow> (Some e, st)
      | Inr site \<Rightarrow>
          (case fetch net \<lparr>url = site @ ''/wp-json/wp/v2/users/me?context=edit'',
                           authorization = ''Basic '' @ token\<rparr> (requests st) of
             (userResponse, log) \<Rightarrow>
               (let st1 = st\<lparr>requests := log\<rparr> in
                case userResponse of
                  Rejected e \<Rightarrow> (Some e, st1)
                | Resolved ok body \<Rightarrow>
                    if \<not> ok
                    then (Some (Error ''Invalid username or application password.''), st1)
                    else
                      (case body of
                         Inl e \<Rightarrow> (Some e, st1)
                       | Inr userData \<Rightarrow>
                           (case member userData ''name'' of
                              Inl e \<Rightarrow> (Some e, st1)
                            | Inr name \<Rightarrow>
                                (let uid = get_prop userData ''id'';
                                     authPayload =
                                       JObj [(''username'', name), (''userId'', uid),
                                             (''siteUrl'', siteUrl st), (''token'', JStr token)]
                                 in (None,
                                     st1\<lparr>providerAuth := Some (JSON_stringify authPayload),
                                         userId := uid,
                                         currentUsername := name,
                                         isLoggedIn := True\<rparr>)))))))"

text \<open>
  \<^verbatim>\<open>handleLogin\<close>. The three tests of line 54 are taken in turn, as \<^verbatim>\<open>||\<close> does.
  The \<^verbatim>\<open>catch\<close> block stores the message of whatever the \<^verbatim>\<open>try\<close> block threw,
  and \<^verbatim>\<open>finally\<close> ends the loading state on both paths.
\<close>

definition missing_input :: "app \<Rightarrow> app" where
  "missing_input st = st\<lparr>loginError := Text ''All fields are required.'', isLoading := False\<rparr>"

definition handleLogin :: "network \<Rightarrow> app \<Rightarrow> app" where
  "handleLogin net st =
     (let st1 = st\<lparr>isLoading := True, loginError := Text []\<rparr> in
      if \<not> truthy (siteUrl st) then missing_input st1
      else if username st = [] then missing_input st1
      else if appPassword st = [] then missing_input st1
      else
        (let token = btoa (username st @ '':'' @ appPassword st) in
         case handleLogin_try net token st1 of
           (Some e, st2) \<Rightarrow> st2\<lparr>loginError := message_of e, isLoading := False\<rparr>
         | (None, st2) \<Rightarrow> st2\<lparr>isLoading := False\<rparr>))"

section \<open>Enrichment (lines 143-172)\<close>

text \<open>\<^verbatim>\<open>{...item, trip_name: v}\<close>.\<close>

definition with_trip_name :: "jsval \<Rightarrow> jsval \<Rightarrow> jsval" where
  "with_trip_name item v = JObj (set_prop ''trip_name'' v (own_props item))"

text \<open>\<^verbatim>\<open>Object.keys(v)[0]\<close> as a property key: the first own key, and the text
  \<^verbatim>\<open>undefined\<close> when there is none.\<close>

definition first_key :: "jsval \<Rightarrow> string" where
  "first_key v = (case own_keys v of [] \<Rightarrow> ''undefined'' | k # ks \<Rightarrow> k)"

text \<open>The URL of line 162:
  \<^verbatim>\<open>`${auth.siteUrl}/wp-json/wp/v2/trip/${tripId}?_fields=title`\<close>.\<close>

definition trip_url :: "jsval \<Rightarrow> jsval \<Rightarrow> js_error + string" where
  "trip_url auth tripId =
     (case member auth ''siteUrl'' of
        Inl e \<Rightarrow> Inl e
      | Inr address \<Rightarrow>
          (case to_string address of
             Inl e \<Rightarrow> Inl e
           | Inr site \<Rightarrow>
               (case to_string tripId of
                  Inl e \<Rightarrow> Inl e
                | Inr tid \<Rightarrow> Inr (site @ ''/wp-json/wp/v2/trip/'' @ tid @ ''?_fields=title''))))"

text \<open>
  The \<^verbatim>\<open>try\<close> block of lines 161-167: the value it returns as the trip name, or
  \<open>None\<close> when it ends without returning (the response is not \<^verbatim>\<open>ok\<close>) or
  throws, which the \<^verbatim>\<open>catch\<close> block ignores. A URL that cannot be built throws before
  \<^verbatim>\<open>fetch\<close> is called.
\<close>

definition lookup_trip_title ::
  "network \<Rightarrow> jsval \<Rightarrow> string \<Rightarrow> jsval \<Rightarrow> request list \<Rightarrow> jsval option \<times> request list" where
  "lookup_trip_title net auth headers tripId log =
     (case trip_url auth tripId of
        Inl e \<Rightarrow> (None, log)
      | Inr u \<Rightarrow>
          (case fetch net \<lparr>url = u, authorization = headers\<rparr> log of
             (tripRes, log') \<Rightarrow>
               (case tripRes of
                  Rejected e \<Rightarrow> (None, log')
                | Resolved ok body \<Rightarrow>
                    if ok then
                      (case body of
                         Inl e \<Rightarrow> (None, log')
                       | Inr tripData \<Rightarrow>
                           (case member tripData ''title'' of
                              Inl e \<Rightarrow> (None, log')
                            | Inr title \<Rightarrow>
                                (case member title ''rendered'' of
                                   Inl e \<Rightarrow> (None, log')
                                 | Inr rendered \<Rightarrow> (Some rendered, log'))))
                    else (None, log'))))"

text \<open>
  The callback of \<^verbatim>\<open>items.map\<close> (lines 147-170) on one item. Reading \<^verbatim>\<open>item.meta\<close>
  of a null item throws outside every \<^verbatim>\<open>try\<close>, which rejects the item's promise.
  Nothing in the \<^verbatim>\<open>try\<close> block of lines 154-157 can throw: \<^verbatim>\<open>orderTrips\<close> is truthy
  there, so \<^verbatim>\<open>Object.keys\<close> and the property reads are defined.
\<close>

definition addTripName ::
  "network \<Rightarrow> jsval \<Rightarrow> string \<Rightarrow> bool \<Rightarrow> jsval \<Rightarrow> request list
     \<Rightarrow> (js_error + jsval) \<times> request list" where
  "addTripName net auth headers isEnquiry item log =
     (case member item ''meta'' of
        Inl e \<Rightarrow> (Inl e, log)
      | Inr meta \<Rightarrow>
          (let orderTrips = opt_member (opt_member meta ''order_trips'') ''0'';
               tripId =
                 (if isEnquiry
                  then opt_member (opt_member meta ''wp_travel_engine_enquiry_trip_id'') ''0''
                  else JNum 0)
           in if \<not> isEnquiry \<and> truthy orderTrips then
                (let cartKey = first_key orderTrips
                 in (Inr (with_trip_name item
                            (js_or (opt_member (get_prop orderTrips cartKey) ''title'')
                                   (JStr ''Unknown Trip''))), log))
              else if truthy tripId then
                (case lookup_trip_title net auth headers tripId log of
                   (Some title, log') \<Rightarrow> (Inr (with_trip_name item title), log')
                 | (None, log') \<Rightarrow> (Inr (with_trip_name item (JStr ''Unknown Trip'')), log'))
              else (Inr (with_trip_name item (JStr ''Unknown Trip'')), log)))"

text \<open>
  \<^verbatim>\<open>items.map\<close> runs the callback on the items in order, each up to its first
  \<^verbatim>\<open>await\<close>, so the lookups are issued in the order of the items, whatever a callback
  before them did.
\<close>

fun addTripName_all ::
  "network \<Rightarrow> jsval \<Rightarrow> string \<Rightarrow> bool \<Rightarrow> jsval list \<Rightarrow> request list
     \<Rightarrow> (js_error + jsval) list \<times> request list" where
  "addTripName_all net auth headers isEnquiry [] log = ([], log)"
| "addTripName_all net auth headers isEnquiry (item # items) log =
     (case addTripName net auth headers isEnquiry item log of
        (r, log') \<Rightarrow>
          (case addTripName_all net auth headers isEnquiry items log' of
             (rs, log'') \<Rightarrow> (r # rs, log'')))"

text \<open>\<^verbatim>\<open>await Promise.all(promises)\<close>: the array of the results when every promise is
  fulfilled, and a throw when one is rejected (the first one in the list is taken; here
  all rejections carry the same TypeError).\<close>

fun promise_all :: "(js_error + 'a) list \<Rightarrow> js_error + 'a list" where
  "promise_all [] = Inr []"
| "promise_all (Inl e # rs) = Inl e"
| "promise_all (Inr x # rs) = (case promise_all rs of Inl e \<Rightarrow> Inl e | Inr xs \<Rightarrow> Inr (x # xs))"

text \<open>
  \<^verbatim>\<open>addTripNamesToItems(items, auth, isEnquiry)\<close>. \<^verbatim>\<open>!items || items.length === 0\<close>
  is taken in turn. A truthy \<^verbatim>\<open>items\<close> that is no array has no \<^verbatim>\<open>map\<close> method:
  calling it throws a TypeError.
\<close>

definition addTripNamesToItems ::
  "network \<Rightarrow> jsval \<Rightarrow> jsval \<Rightarrow> bool \<Rightarrow> request list \<Rightarrow> (js_error + jsval) \<times> request list" where
  "addTripNamesToItems net items auth isEnquiry log =
     (if \<not> truthy items then (Inr (JArr []), log)
      else if get_prop items ''length'' = JNum 0 then (Inr (JArr []), log)
      else
        (case member auth ''token'' of
           Inl e \<Rightarrow> (Inl e, log)
         | Inr token \<Rightarrow>
             (case to_string token of
                Inl e \<Rightarrow> (Inl e, log)
              | Inr t \<Rightarrow>
                  (case items of
                     JArr xs \<Rightarrow>
                       (case addTripName_all net auth (''Basic '' @ t) isEnquiry xs log of
                          (rs, log') \<Rightarrow>
                            (case promise_all rs of
                               Inl e \<Rightarrow> (Inl e, log')
                             | Inr enhancedItems \<Rightarrow> (Inr (JArr enhancedItems), log')))
                   | _ \<Rightarrow> (Inl TypeError, log)))))"

section \<open>The aggregation cycle (lines 105-141)\<close>

text \<open>The URLs of lines 118 and 119, for the collection \<^verbatim>\<open>booking\<close> or
  \<^verbatim>\<open>enquiry\<close>.\<close>

definition collection_url :: "jsval \<Rightarrow> string \<Rightarrow> jsval \<Rightarrow> js_error + string" where
  "collection_url storedAuth name uid =
     (case to_string (get_prop storedAuth ''siteUrl'') of
        Inl e \<Rightarrow> Inl e
      | Inr site \<Rightarrow>
          (case to_string uid of
             Inl e \<Rightarrow> Inl e
           | Inr u \<Rightarrow>
               Inr (site @ ''/wp-json/wp/v2/'' @ name
                      @ ''?_fields=id,date,title,status,meta&meta_key=_provider_id&meta_value=''
                      @ u)))"

text \<open>What the rest of the \<^verbatim>\<open>try\<close> block reads of a response: \<^verbatim>\<open>await\<close> on a
  rejected \<^verbatim>\<open>fetch\<close> throws, and so does \<^verbatim>\<open>await Promise.all\<close> when either
  of its two promises is rejected.\<close>

fun awaited :: "response \<Rightarrow> js_error + bool \<times> (js_error + jsval)" where
  "awaited (Rejected e) = Inl e"
| "awaited (Resolved ok body) = Inr (ok, body)"

text \<open>
  The \<^verbatim>\<open>try\<close> block of \<^verbatim>\<open>fetchData\<close> (lines 114-132) up to the two state updates:
  the error thrown, or the enhanced bookings and enquiries, and the log of requests. Both
  collection requests are issued before either answer is awaited. \<open>storedAuth\<close> is truthy
  here, so its properties can be read.
\<close>

definition fetchData_try ::
  "network \<Rightarrow> jsval \<Rightarrow> request list \<Rightarrow> (js_error + jsval \<times> jsval) \<times> request list" where
  "fetchData_try net storedAuth log =
     (case to_string (get_prop storedAuth ''token'') of
        Inl e \<Rightarrow> (Inl e, log)
      | Inr token \<Rightarrow>
     (let headers = ''Basic '' @ token;
          uid = get_prop storedAuth ''userId''
      in case collection_url storedAuth ''booking'' uid of
        Inl e \<Rightarrow> (Inl e, log)
      | Inr bookingUrl \<Rightarrow>
     (case fetch net \<lparr>url = bookingUrl, authorization = headers\<rparr> log of
        (bookingsPromise, log1) \<Rightarrow>
     (case collection_url storedAuth ''enquiry'' uid of
        Inl e \<Rightarrow> (Inl e, log1)
      | Inr enquiryUrl \<Rightarrow>
     (case fetch net \<lparr>url = enquiryUrl, authorization = headers\<rparr> log1 of
        (enquiriesPromise, log2) \<Rightarrow>
     (case awaited bookingsPromise of
        Inl e \<Rightarrow> (Inl e, log2)
      | Inr (bookingsOk, bookingsBody) \<Rightarrow>
     (case awaited enquiriesPromise of
        Inl e \<Rightarrow> (Inl e, log2)
      | Inr (enquiriesOk, enquiriesBody) \<Rightarrow>
          if \<not> bookingsOk then (Inl (Error ''Failed to fetch data.''), log2)
          else if \<not> enquiriesOk then (Inl (Error ''Failed to fetch data.''), log2)
          else
            (case bookingsBody of
               Inl e \<Rightarrow> (Inl e, log2)
             | Inr bookingsData \<Rightarrow>
            (case enquiriesBody of
               Inl e \<Rightarrow> (Inl e, log2)
             | Inr enquiriesData \<Rightarrow>
            (case addTripNamesToItems net bookingsData storedAuth False log2 of
               (Inl e, log3) \<Rightarrow> (Inl e, log3)
             | (Inr enhancedBookings, log3) \<Rightarrow>
            (case addTripNamesToItems net enquiriesData storedAuth True log3 of
               (Inl e, log4) \<Rightarrow> (Inl e, log4)
             | (Inr enhancedEnquiries, log4) \<Rightarrow>
                 (Inr (enhancedBookings, enhancedEnquiries), log4))))))))))))"

text \<open>
  \<^verbatim>\<open>fetchData\<close>. Reading the stored session (line 107) stands before the \<^verbatim>\<open>try\<close>
  block: a text that is no JSON makes \<^verbatim>\<open>fetchData\<close> throw while the loading state is
  on. Inside, any error ends in the \<^verbatim>\<open>catch\<close> block: an \<^verbatim>\<open>alert\<close> and
  \<^verbatim>\<open>handleLogout()\<close>; \<^verbatim>\<open>finally\<close> ends the loading state.
\<close>

definition fetch_alert :: string where
  "fetch_alert = ''Could not fetch data. Please check your connection and credentials.''"

definition fetchData :: "network \<Rightarrow> app \<Rightarrow> js_error option \<times> app" where
  "fetchData net st =
     (let st1 = st\<lparr>isLoading := True\<rparr> in
      case JSON_parse_item (providerAuth st1) of
        Inl e \<Rightarrow> (Some e, st1)
      | Inr storedAuth \<Rightarrow>
          if \<not> truthy storedAuth then (None, st1\<lparr>isLoading := False\<rparr>)
          else
            (case fetchData_try net storedAuth (requests st1) of
               (Inl e, log) \<Rightarrow>
                 (None,
                  (handleLogout (st1\<lparr>requests := log, alerts := alerts st1 @ [fetch_alert]\<rparr>))
                    \<lparr>isLoading := False\<rparr>)
             | (Inr (enhancedBookings, enhancedEnquiries), log) \<Rightarrow>
                 (None, st1\<lparr>requests := log, bookings := enhancedBookings,
                            enquiries := enhancedEnquiries, isLoading := False\<rparr>)))"

subsection \<open>The cycle, effect by effect\<close>

text \<open>
  \<^verbatim>\<open>fetchData\<close> above gives the state a cycle ends in. Its effects, one by one: every
  state write (a call of a \<^verbatim>\<open>useState\<close> setter or of \<^verbatim>\<open>localStorage.removeItem\<close>),
  every request handed to \<^verbatim>\<open>fetch\<close>, and the \<^verbatim>\<open>alert\<close>.
\<close>

datatype event =
    SetIsLoading bool
  | Requested request
  | SetBookings jsval
  | SetEnquiries jsval
  | Alerted string
  | RemovedProviderAuth
  | SetIsLoggedIn bool
  | SetUsername string
  | SetAppPassword string
  | SetCurrentUsername jsval
  | SetUserId jsval

fun apply_event :: "event \<Rightarrow> app \<Rightarrow> app" where
  "apply_event (SetIsLoading b) st = st\<lparr>isLoading := b\<rparr>"
| "apply_event (Requested r) st = st\<lparr>requests := requests st @ [r]\<rparr>"
| "apply_event (SetBookings v) st = st\<lparr>bookings := v\<rparr>"
| "apply_event (SetEnquiries v) st = st\<lparr>enquiries := v\<rparr>"
| "apply_event (Alerted s) st = st\<lparr>alerts := alerts st @ [s]\<rparr>"
| "apply_event RemovedProviderAuth st = st\<lparr>providerAuth := None\<rparr>"
| "apply_event (SetIsLoggedIn b) st = st\<lparr>isLoggedIn := b\<rparr>"
| "apply_event (SetUsername s) st = st\<lparr>username := s\<rparr>"
| "apply_event (SetAppPassword s) st = st\<lparr>appPassword := s\<rparr>"
| "apply_event (SetCurrentUsername v) st = st\<lparr>currentUsername := v\<rparr>"
| "apply_event (SetUserId v) st = st\<lparr>userId := v\<rparr>"

text \<open>The state after a sequence of effects.\<close>

fun replay :: "event list \<Rightarrow> app \<Rightarrow> app" where
  "replay [] st = st"
| "replay (ev # evs) st = replay evs (apply_event ev st)"

text \<open>The eight statements of \<^verbatim>\<open>handleLogout\<close> (lines 95-102), in their order.\<close>

definition handleLogout_events :: "event list" where
  "handleLogout_events =
     [RemovedProviderAuth, SetIsLoggedIn False, SetUsername [], SetAppPassword [],
      SetCurrentUsername (JStr []), SetUserId JNull, SetBookings (JArr []),
      SetEnquiries (JArr [])]"


section \<open>Notions used in the statements\<close>

text \<open>An item of a collection as the remote API delivers it: a JSON object.\<close>

fun is_object :: "jsval \<Rightarrow> bool" where
  "is_object (JObj ps) = True"
| "is_object v = False"




text \<open>The session of the actor \<^verbatim>\<open>alice\<close> (id 7) on \<^verbatim>\<open>https://world.hyrosy.com\<close>
  with the application password \<^verbatim>\<open>pw\<close>, as \<^verbatim>\<open>handleLogin\<close> stores it.\<close>

definition alice_session :: jsval where
  "alice_session =
     JObj [(''username'', JStr ''alice''), (''userId'', JNum 7),
           (''siteUrl'', JStr ''https://world.hyrosy.com''),
           (''token'', JStr ''YWxpY2U6cHc='')]"

text \<open>A remote side that answers every request with status 200 and the given JSON
  body, and one that is unreachable.\<close>

definition answers :: "jsval \<Rightarrow> network" where
  "answers v = (\<lambda>n r. Resolved True (Inr v))"

definition unreachable :: network where
  "unreachable = (\<lambda>n r. Rejected TypeError)"


text \<open>Example items: an enquiry for trip 42, an enquiry whose trip id is 0, a booking
  with an embedded trip (\<^verbatim>\<open>order_trips\<close> a list holding the cart map, as line 149 reads
  it), a booking whose \<^verbatim>\<open>order_trips\<close> is the cart map itself, an enquiry whose trip
  id is the object \<^verbatim>\<open>{"toString": 1}\<close>, which has no text, and an enquiry that carries an
  embedded trip as well as the trip id 42.\<close>

definition enquiry_42 :: jsval where
  "enquiry_42 =
     JObj [(''id'', JNum 1),
           (''meta'', JObj [(''wp_travel_engine_enquiry_trip_id'', JArr [JNum 42])])]"

definition enquiry_zero :: jsval where
  "enquiry_zero =
     JObj [(''id'', JNum 5),
           (''meta'', JObj [(''wp_travel_engine_enquiry_trip_id'', JArr [JNum 0])])]"

definition booking_safari :: jsval where
  "booking_safari =
     JObj [(''id'', JNum 2),
           (''meta'',
            JObj [(''order_trips'', JArr [JObj [(''cart1'', JObj [(''title'', JStr ''Safari'')])]])])]"




text \<open>The answer of the trip endpoint for a trip titled \<^verbatim>\<open>Nile Cruise\<close>, and the
  request \<^verbatim>\<open>alice\<close>'s session issues for trip 42.\<close>

definition nile_cruise :: jsval where
  "nile_cruise = JObj [(''title'', JObj [(''rendered'', JStr ''Nile Cruise'')])]"

definition lookup_42 :: request where
  "lookup_42 =
     \<lparr>url = ''https://world.hyrosy.com/wp-json/wp/v2/trip/42?_fields=title'',
      authorization = ''Basic YWxpY2U6cHc=''\<rparr>"



section \<open>Logout\<close>

text \<open>
  C8. Calling \<^verbatim>\<open>handleLogout\<close> twice in succession leaves the state the first call
  left: the stored session is gone, the user is logged out, and bookings and enquiries
  are empty.
\<close>

theorem handleLogout_idempotent:
  "handleLogout (handleLogout st) = handleLogout st
   \<and> providerAuth (handleLogout st) = None
   \<and> \<not> isLoggedIn (handleLogout st)
   \<and> currentUsername (handleLogout st) = JStr []
   \<and> userId (handleLogout st) = JNull
   \<and> bookings (handleLogout st) = JArr []
   \<and> enquiries (handleLogout st) = JArr []"
  by (simp add: handleLogout_def)

section \<open>The aggregation cycle without a session\<close>

text \<open>
  C10. When no session is stored, \<^verbatim>\<open>fetchData\<close> returns without throwing and without
  issuing a request; bookings and enquiries, and every other part of the state but the
  loading flag, are as before, and the loading flag, raised on entry, is down.
\<close>

theorem fetchData_without_session:
  assumes "providerAuth st = None"
  shows "fetchData net st = (None, st\<lparr>isLoading := False\<rparr>)
         \<and> requests (snd (fetchData net st)) = requests st
         \<and> bookings (snd (fetchData net st)) = bookings st
         \<and> enquiries (snd (fetchData net st)) = enquiries st"
  using assms by (simp add: fetchData_def)

theorem fetchData_without_session_witness:
  "providerAuth (initial_app None) = None
   \<and> fetchData unreachable (initial_app None)
       = (None, (initial_app None)\<lparr>isLoading := False\<rparr>)"
  using fetchData_without_session [of "initial_app None" unreachable]
  by (simp add: initial_app_def)

section \<open>Login\<close>

text \<open>
  C5. A login attempt in which the site address, the username or the password is the
  empty string issues no request and reports \<^verbatim>\<open>All fields are required.\<close>; nothing else
  of the state changes, and the loading flag is down again.
\<close>

theorem handleLogin_missing_input:
  assumes "siteUrl st = JStr [] \<or> username st = [] \<or> appPassword st = []"
  shows "handleLogin net st
           = st\<lparr>isLoading := False, loginError := Text ''All fields are required.''\<rparr>
         \<and> requests (handleLogin net st) = requests st"
  using assms by (auto simp add: handleLogin_def missing_input_def Let_def)

theorem handleLogin_missing_input_witness:
  "appPassword ((initial_app None)\<lparr>username := ''alice''\<rparr>) = []
   \<and> requests (handleLogin (answers JNull) ((initial_app None)\<lparr>username := ''alice''\<rparr>)) = []
   \<and> loginError (handleLogin (answers JNull) ((initial_app None)\<lparr>username := ''alice''\<rparr>))
       = Text ''All fields are required.''"
  using handleLogin_missing_input
    [of "(initial_app None)\<lparr>username := ''alice''\<rparr>" "answers JNull"]
  by (simp add: initial_app_def)

lemma json_value_is_json: "is_json v \<Longrightarrow> json_value v = v"
proof (induction v rule: json_value.induct)
  case (1 xs)
  then have "map (\<lambda>x. if x = JUndefined then JNull else json_value x) xs = map (\<lambda>x. x) xs"
    by (intro map_cong) (auto simp: list_all_iff)
  then show ?case by simp
next
  case (2 ps)
  have kept: "filter (\<lambda>p. snd p \<noteq> JUndefined) ps = ps"
    using 2(2) by (auto simp: list_all_iff filter_id_conv)
  have "map (\<lambda>p. (fst p, json_value (snd p))) ps = map (\<lambda>p. p) ps"
    using 2 kept by (intro map_cong) (auto simp: list_all_iff)
  with kept show ?case by simp
qed auto

lemma btoa_al_pw: "btoa ''al:pw'' = ''YWw6cHc=''"
  by (simp add: btoa_def b64_digit_def)

lemma get_prop_is_json:
  assumes "is_json v"
  shows "get_prop v k = JUndefined \<or> is_json (get_prop v k)"
proof (cases v)
  case (JObj ps)
  show ?thesis
  proof (cases "map_of ps k")
    case None
    with JObj show ?thesis by (simp add: get_prop_def)
  next
    case (Some x)
    then have "(k, x) \<in> set ps" by (rule map_of_SomeD)
    with assms JObj have "is_json x" by (auto simp: list_all_iff)
    with JObj Some show ?thesis by (simp add: get_prop_def)
  qed
next
  case (JArr xs)
  show ?thesis
  proof (cases "map_of (zip (index_keys (length xs)) xs) k")
    case None
    with JArr show ?thesis by (simp add: get_prop_def)
  next
    case (Some x)
    then have "x \<in> set xs" by (auto dest: map_of_SomeD set_zip_rightD)
    with assms JArr have "is_json x" by (auto simp: list_all_iff)
    with JArr Some show ?thesis by (simp add: get_prop_def)
  qed
next
  case (JStr str)
  show ?thesis
  proof (cases "map_of (zip (index_keys (length str)) (map (\<lambda>c. JStr [c]) str)) k")
    case None
    with JStr show ?thesis by (simp add: get_prop_def)
  next
    case (Some x)
    then have "(k, x) \<in> set (zip (index_keys (length str)) (map (\<lambda>c. JStr [c]) str))"
      by (rule map_of_SomeD)
    then have "x \<in> set (map (\<lambda>c. JStr [c]) str)" by (rule set_zip_rightD)
    then have "is_json x" by auto
    with JStr Some show ?thesis by (simp add: get_prop_def)
  qed
qed (simp_all add: get_prop_def)

text \<open>
  C6, as the code has it. The only test of the identity answer is its status (line 67).
  When the three inputs are non-empty and the identity request is answered with a success
  status and a JSON body other than null, one request is issued, the user is logged in,
  and the actor name and the actor id of the session are the \<^verbatim>\<open>name\<close> and the
  \<^verbatim>\<open>id\<close> of that body (undefined where the body has none), whatever username was
  typed. The record stored holds the site address and the token built from the typed
  credentials, and the name and the id that the body carries: all four fields when it
  carries both, and fewer when it does not.
\<close>

theorem handleLogin_session_from_server:
  assumes site: "siteUrl st = JStr site" "site \<noteq> []"
    and creds: "username st \<noteq> []" "appPassword st \<noteq> []"
    and token: "token = btoa (username st @ '':'' @ appPassword st)"
    and req: "req = \<lparr>url = site @ ''/wp-json/wp/v2/users/me?context=edit'',
                     authorization = ''Basic '' @ token\<rparr>"
    and answer: "net (length (requests st)) req = Resolved True (Inr userData)"
    and body: "is_json userData" "userData \<noteq> JNull"
  shows "currentUsername (handleLogin net st) = get_prop userData ''name''
         \<and> userId (handleLogin net st) = get_prop userData ''id''
         \<and> isLoggedIn (handleLogin net st)
         \<and> requests (handleLogin net st) = requests st @ [req]
         \<and> providerAuth (handleLogin net st)
             = Some (JsonText (JObj (filter (\<lambda>p. snd p \<noteq> JUndefined)
                        [(''username'', get_prop userData ''name''),
                         (''userId'', get_prop userData ''id''),
                         (''siteUrl'', JStr site),
                         (''token'', JStr token)])))"
proof -
  have nn: "\<not> nullish userData"
    using body by (cases userData) auto
  have name: "get_prop userData ''name'' = JUndefined \<or> is_json (get_prop userData ''name'')"
    and uid: "get_prop userData ''id'' = JUndefined \<or> is_json (get_prop userData ''id'')"
    using body(1) by (rule get_prop_is_json)+
  let ?st1 = "st\<lparr>isLoading := True, loginError := Text []\<rparr>"
  have stored: "JSON_stringify (JObj [(''username'', get_prop userData ''name''),
                         (''userId'', get_prop userData ''id''),
                         (''siteUrl'', JStr site),
                         (''token'', JStr token)])
      = JsonText (JObj (filter (\<lambda>p. snd p \<noteq> JUndefined)
                        [(''username'', get_prop userData ''name''),
                         (''userId'', get_prop userData ''id''),
                         (''siteUrl'', JStr site),
                         (''token'', JStr token)]))"
    using name uid by (auto simp add: JSON_stringify_def json_value_is_json)
  have run: "handleLogin_try net token ?st1 =
      (None, ?st1\<lparr>requests := requests st @ [req],
          providerAuth := Some (JsonText (JObj (filter (\<lambda>p. snd p \<noteq> JUndefined)
                        [(''username'', get_prop userData ''name''),
                         (''userId'', get_prop userData ''id''),
                         (''siteUrl'', JStr site),
                         (''token'', JStr token)]))),
          userId := get_prop userData ''id'',
          currentUsername := get_prop userData ''name'',
          isLoggedIn := True\<rparr>)"
    using site answer nn req
    by (simp add: handleLogin_try_def fetch_def member_def Let_def stored del: filter.simps)
  show ?thesis
    using site creds run token by (simp add: handleLogin_def Let_def del: filter.simps)
qed

theorem handleLogin_session_from_server_witness:
  "currentUsername
     (handleLogin (answers (JObj [(''id'', JNum 7), (''name'', JStr ''alice'')]))
        ((initial_app None)\<lparr>username := ''al'', appPassword := ''pw''\<rparr>)) = JStr ''alice''
   \<and> userId
     (handleLogin (answers (JObj [(''id'', JNum 7), (''name'', JStr ''alice'')]))
        ((initial_app None)\<lparr>username := ''al'', appPassword := ''pw''\<rparr>)) = JNum 7
   \<and> providerAuth
     (handleLogin (answers (JObj [(''id'', JNum 7), (''name'', JStr ''alice'')]))
        ((initial_app None)\<lparr>username := ''al'', appPassword := ''pw''\<rparr>))
     = Some (JsonText (JObj [(''username'', JStr ''alice''), (''userId'', JNum 7),
                             (''siteUrl'', JStr ''https://world.hyrosy.com''),
                             (''token'', JStr ''YWw6cHc='')]))"
  using handleLogin_session_from_server
    [where st = "(initial_app None)\<lparr>username := ''al'', appPassword := ''pw''\<rparr>"
       and site = "''https://world.hyrosy.com''"
       and net = "answers (JObj [(''id'', JNum 7), (''name'', JStr ''alice'')])"
       and userData = "JObj [(''id'', JNum 7), (''name'', JStr ''alice'')]", OF _ _ _ _ refl refl]
    btoa_al_pw
  by (simp add: initial_app_def answers_def get_prop_def)

text \<open>
  The claim C6 as stated fails when the identity answer has a success status and no
  \<^verbatim>\<open>name\<close>: for the body \<^verbatim>\<open>{"id": 7}\<close> the user is logged in with an undefined actor
  name, and the record stored has three fields, \<^verbatim>\<open>username\<close> not among them.
\<close>

theorem handleLogin_stores_partial_session:
  "isLoggedIn
     (handleLogin (answers (JObj [(''id'', JNum 7)]))
        ((initial_app None)\<lparr>username := ''al'', appPassword := ''pw''\<rparr>))
   \<and> currentUsername
     (handleLogin (answers (JObj [(''id'', JNum 7)]))
        ((initial_app None)\<lparr>username := ''al'', appPassword := ''pw''\<rparr>)) = JUndefined
   \<and> providerAuth
     (handleLogin (answers (JObj [(''id'', JNum 7)]))
        ((initial_app None)\<lparr>username := ''al'', appPassword := ''pw''\<rparr>))
     = Some (JsonText (JObj [(''userId'', JNum 7),
                             (''siteUrl'', JStr ''https://world.hyrosy.com''),
                             (''token'', JStr ''YWw6cHc='')]))"
  using btoa_al_pw
  by (simp add: handleLogin_def handleLogin_try_def fetch_def answers_def initial_app_def
      member_def get_prop_def JSON_stringify_def Let_def)

section \<open>Properties of values\<close>

lemma show_nat_0: "show_nat 0 = ''0''"
  by (simp add: show_nat.simps)

lemma show_nat_digits: "set (show_nat n) \<subseteq> set ''0123456789''"
proof (induction n rule: show_nat.induct)
  case (1 n)
  have d: "''0123456789'' ! k \<in> set ''0123456789''" if "k < 10" for k
    using that by (intro nth_mem) simp
  show ?case
  proof (cases "n < 10")
    case True
    then show ?thesis using d [of n] by (subst show_nat.simps) simp
  next
    case False
    have "n mod 10 < 10" by simp
    with False 1 d [of "n mod 10"] show ?thesis
      by (subst show_nat.simps) simp
  qed
qed

lemma show_int_42: "show_int 42 = ''42''"
  by (simp add: show_int_def show_nat.simps)


lemma index_keys_digits: "k \<in> set (index_keys n) \<Longrightarrow> set k \<subseteq> set ''0123456789''"
  using show_nat_digits by (auto simp: index_keys_def)

lemma length_not_index: "''length'' \<notin> set (index_keys n)"
  using index_keys_digits [of "''length''" n] by auto

lemma get_prop_JObj:
  "get_prop (JObj ps) k = (case map_of ps k of Some x \<Rightarrow> x | None \<Rightarrow> JUndefined)"
  by (simp add: get_prop_def split: option.splits)

lemma get_prop_first: "get_prop (JArr (x # xs)) ''0'' = x"
  by (simp add: get_prop_def index_keys_def upt_conv_Cons show_nat_0 del: upt_Suc)

lemma get_prop_length: "get_prop (JArr xs) ''length'' = JNum (int (length xs))"
proof -
  have "length (index_keys (length xs)) = length xs"
    by (simp add: index_keys_def)
  then have "map_of (zip (index_keys (length xs)) xs) ''length'' = None"
    using length_not_index [of "length xs"] by (simp add: map_of_zip_is_None)
  then show ?thesis by (simp add: get_prop_def)
qed

lemma map_of_set_prop:
  "map_of (set_prop k v ps) k' = (if k' = k then Some v else map_of ps k')"
  by (induction ps) auto

lemma keys_set_prop:
  "filter (\<lambda>k'. k' \<noteq> k) (map fst (set_prop k v ps)) = filter (\<lambda>k'. k' \<noteq> k) (map fst ps)"
  by (induction ps) auto

lemma key_set_prop: "k \<in> fst ` set (set_prop k v ps)"
  by (induction ps) auto

lemma get_trip_name: "get_prop (with_trip_name item v) ''trip_name'' = v"
  by (simp add: with_trip_name_def get_prop_JObj map_of_set_prop)

lemma get_other_field:
  "k \<noteq> ''trip_name'' \<Longrightarrow> get_prop (with_trip_name (JObj ps) v) k = get_prop (JObj ps) k"
  by (simp add: with_trip_name_def get_prop_JObj map_of_set_prop)

section \<open>Enrichment of one item\<close>

text \<open>
  C9. For an enquiry item whose \<^verbatim>\<open>wp_travel_engine_enquiry_trip_id\<close> metadata is absent
  or empty, or has 0 as its first element, the resolver issues no request and sets the
  trip name to \<^verbatim>\<open>Unknown Trip\<close>.
\<close>

theorem enquiry_without_trip_id:
  assumes item: "member item ''meta'' = Inr meta"
    and tid: "tid = opt_member meta ''wp_travel_engine_enquiry_trip_id''"
    and none: "tid = JUndefined \<or> tid = JArr [] \<or> tid = JStr []
               \<or> (\<exists>rest. tid = JArr (JNum 0 # rest))"
  shows "addTripName net auth headers True item log
           = (Inr (with_trip_name item (JStr ''Unknown Trip'')), log)
         \<and> get_prop (with_trip_name item (JStr ''Unknown Trip'')) ''trip_name''
             = JStr ''Unknown Trip''"
proof -
  have "\<not> truthy (opt_member tid ''0'')"
    using none
    by (auto simp: opt_member_def get_prop_first) (simp_all add: get_prop_def index_keys_def)
  then show ?thesis
    using item tid by (simp add: addTripName_def Let_def get_trip_name)
qed

theorem enquiry_without_trip_id_witness:
  "addTripName (answers nile_cruise) alice_session ''Basic YWxpY2U6cHc='' True enquiry_zero []
     = (Inr (JObj [(''id'', JNum 5),
                   (''meta'', JObj [(''wp_travel_engine_enquiry_trip_id'', JArr [JNum 0])]),
                   (''trip_name'', JStr ''Unknown Trip'')]), [])"
  using enquiry_without_trip_id
    [of enquiry_zero "JObj [(''wp_travel_engine_enquiry_trip_id'', JArr [JNum 0])]" "JArr [JNum 0]"
        "answers nile_cruise" alice_session "''Basic YWxpY2U6cHc=''" "[]"]
  by (simp add: enquiry_zero_def member_def opt_member_def get_prop_def with_trip_name_def)

lemma addTripName_object:
  assumes "\<not> nullish item"
  shows "\<exists>v log'. addTripName net auth headers isEnquiry item log
           = (Inr (with_trip_name item v), log')"
  using assms
  by (auto simp: addTripName_def member_def Let_def split: prod.splits option.splits)




text \<open>
  C2 is not met by the code. The claim: after enrichment the trip name of every item is a
  resolved title or \<^verbatim>\<open>Unknown Trip\<close>, never absent. The lookup path (line 165) stores
  \<^verbatim>\<open>tripData.title.rendered\<close> as it is, without the \<^verbatim>\<open>|| 'Unknown Trip'\<close> of the
  embedded path (line 156): for an enquiry for trip 42 whose lookup is answered with
  status 200 and the body \<^verbatim>\<open>{"title": {}}\<close>, the trip name is undefined.
\<close>

theorem trip_name_undefined_without_rendered:
  "addTripNamesToItems (answers (JObj [(''title'', JObj [])])) (JArr [enquiry_42])
     alice_session True []
   = (Inr (JArr [JObj [(''id'', JNum 1),
                       (''meta'', JObj [(''wp_travel_engine_enquiry_trip_id'', JArr [JNum 42])]),
                       (''trip_name'', JUndefined)]]),
      [lookup_42])"
  by (simp add: addTripNamesToItems_def addTripName_def lookup_trip_title_def trip_url_def
      fetch_def answers_def enquiry_42_def alice_session_def lookup_42_def member_def
      opt_member_def get_prop_def with_trip_name_def index_keys_def show_int_42
      upt_conv_Cons show_nat_0 Let_def del: upt_Suc)

section \<open>Enrichment of a collection\<close>

lemma promise_all_fulfilled: "promise_all (map Inr ys) = Inr ys"
  by (induction ys) auto

lemma addTripName_all_objects:
  assumes "list_all is_object xs"
  shows "\<exists>ys log'. addTripName_all net auth headers isEnquiry xs log = (map Inr ys, log')
           \<and> list_all2 (\<lambda>x y. \<exists>v. y = with_trip_name x v) xs ys"
  using assms
proof (induction xs arbitrary: log)
  case Nil
  then show ?case by simp
next
  case (Cons x xs)
  then have "\<not> nullish x" by (cases x) auto
  from addTripName_object [OF this]
  obtain v log1 where
    x: "addTripName net auth headers isEnquiry x log = (Inr (with_trip_name x v), log1)"
    by blast
  from Cons obtain ys log2 where
    xs: "addTripName_all net auth headers isEnquiry xs log1 = (map Inr ys, log2)"
      "list_all2 (\<lambda>x y. \<exists>v. y = with_trip_name x v) xs ys"
    by fastforce
  have "addTripName_all net auth headers isEnquiry (x # xs) log
          = (map Inr (with_trip_name x v # ys), log2)"
    using x xs by simp
  moreover have
    "list_all2 (\<lambda>x y. \<exists>v. y = with_trip_name x v) (x # xs) (with_trip_name x v # ys)"
    using xs by auto
  ultimately show ?case by blast
qed

text \<open>
  C7. For a sequence of items (JSON objects) and a session whose token has a text,
  \<^verbatim>\<open>addTripNamesToItems\<close> returns, without throwing, a sequence of the same length in
  which the item at each position is the input item at that position with the field
  \<^verbatim>\<open>trip_name\<close> written: the other keys are the same, in the same order, with the same
  values. The answers of the remote side, in whatever order they arrive, only decide the
  trip names.
\<close>

theorem addTripNamesToItems_keeps_items:
  assumes items: "list_all is_object xs"
    and token: "member auth ''token'' = Inr tok" "to_string tok = Inr t"
  shows "\<exists>ys log'.
           addTripNamesToItems net (JArr xs) auth isEnquiry log = (Inr (JArr ys), log')
           \<and> length ys = length xs
           \<and> (\<forall>i<length xs.
                 is_object (ys ! i)
                 \<and> ''trip_name'' \<in> set (own_keys (ys ! i))
                 \<and> filter (\<lambda>k. k \<noteq> ''trip_name'') (own_keys (ys ! i))
                     = filter (\<lambda>k. k \<noteq> ''trip_name'') (own_keys (xs ! i))
                 \<and> (\<forall>k. k \<noteq> ''trip_name'' \<longrightarrow> get_prop (ys ! i) k = get_prop (xs ! i) k))"
proof -
  from addTripName_all_objects [OF items]
  obtain ys log' where
    run: "addTripName_all net auth (''Basic '' @ t) isEnquiry xs log = (map Inr ys, log')"
    and rel: "list_all2 (\<lambda>x y. \<exists>v. y = with_trip_name x v) xs ys"
    by blast
  have len: "length ys = length xs"
    using rel by (simp add: list_all2_lengthD)
  have result: "addTripNamesToItems net (JArr xs) auth isEnquiry log = (Inr (JArr ys), log')"
  proof (cases xs)
    case Nil
    with run show ?thesis
      by (simp add: addTripNamesToItems_def get_prop_length)
  next
    case (Cons x xs')
    then have "get_prop (JArr xs) ''length'' \<noteq> JNum 0"
      by (simp add: get_prop_length)
    with run token show ?thesis
      by (simp add: addTripNamesToItems_def promise_all_fulfilled)
  qed
  have each: "is_object (ys ! i)
       \<and> ''trip_name'' \<in> set (own_keys (ys ! i))
       \<and> filter (\<lambda>k. k \<noteq> ''trip_name'') (own_keys (ys ! i))
           = filter (\<lambda>k. k \<noteq> ''trip_name'') (own_keys (xs ! i))
       \<and> (\<forall>k. k \<noteq> ''trip_name'' \<longrightarrow> get_prop (ys ! i) k = get_prop (xs ! i) k)"
    if i: "i < length xs" for i
  proof -
    from rel i obtain v where y: "ys ! i = with_trip_name (xs ! i) v"
      by (auto simp: list_all2_conv_all_nth)
    from items i have "is_object (xs ! i)"
      by (simp add: list_all_length)
    then obtain ps where x: "xs ! i = JObj ps"
      by (cases "xs ! i") auto
    show ?thesis
      unfolding y x
      by (simp add: get_other_field)
         (simp add: with_trip_name_def own_keys_def keys_set_prop key_set_prop)
  qed
  from result len each show ?thesis by blast
qed

theorem addTripNamesToItems_keeps_items_witness:
  "list_all is_object [booking_safari, enquiry_42]
   \<and> (\<exists>ys log'. addTripNamesToItems unreachable (JArr [booking_safari, enquiry_42])
                    alice_session True [] = (Inr (JArr ys), log')
          \<and> length ys = 2
          \<and> get_prop (ys ! 0) ''id'' = JNum 2
          \<and> get_prop (ys ! 1) ''id'' = JNum 1)"
proof -
  have items: "list_all is_object [booking_safari, enquiry_42]"
    by (simp add: booking_safari_def enquiry_42_def)
  have token: "member alice_session ''token'' = Inr (JStr ''YWxpY2U6cHc='')"
    by (simp add: alice_session_def member_def get_prop_def)
  from addTripNamesToItems_keeps_items [OF items token, of "''YWxpY2U6cHc=''" unreachable True "[]"]
  obtain ys log' where
    r: "addTripNamesToItems unreachable (JArr [booking_safari, enquiry_42]) alice_session True []
          = (Inr (JArr ys), log')"
      "length ys = 2"
    and f: "\<forall>i<2. \<forall>k. k \<noteq> ''trip_name''
              \<longrightarrow> get_prop (ys ! i) k = get_prop ([booking_safari, enquiry_42] ! i) k"
    by auto
  from f have "get_prop (ys ! 0) ''id'' = JNum 2" "get_prop (ys ! 1) ''id'' = JNum 1"
    by (simp_all add: booking_safari_def enquiry_42_def get_prop_def)
  with items r show ?thesis by blast
qed

section \<open>Rehydration\<close>




section \<open>The aggregation cycle with a session\<close>




lemma handleLogout_replay: "replay handleLogout_events st = handleLogout st"
  by (simp add: handleLogout_events_def handleLogout_def)




















end
